theory Spec2Isabelle
  imports Main "HOL-Library.Sublist" "HOL-Library.Word"
begin

section \<open>The screenshot-to-HTML pipeline of \<^verbatim>\<open>app-chat-exp.py\<close>\<close>

text \<open>
  The script is a Streamlit page: every user action runs \<^verbatim>\<open>main()\<close> once, from the
  top. What survives from one run to the next is \<^verbatim>\<open>st.session_state\<close> (the keys
  \<^verbatim>\<open>refined_html\<close> and \<^verbatim>\<open>chat_history\<close>) and the module-level
  \<^verbatim>\<open>chat_session\<close>. One run is modelled as a function from the state before it to
  the state after it, with the exception that \<^verbatim>\<open>except Exception as e\<close> caught, if any.

  Python's \<^verbatim>\<open>str\<close> values are modelled as \<open>string\<close>; the script only
  concatenates them (f-strings) and tests them for emptiness, which does not depend on the
  encoding of the characters. Calls that only render (\<^verbatim>\<open>st.write\<close>,
  \<^verbatim>\<open>st.markdown\<close>, \<^verbatim>\<open>st.code\<close>, \<^verbatim>\<open>st.spinner\<close>, the preview and the
  download button) read the state and never write it; they are left out.
\<close>

subsection \<open>Data\<close>

type_synonym blob = "8 word list"

text \<open>The exceptions of a run; all of them are instances of \<^verbatim>\<open>Exception\<close>.\<close>

datatype exn =
    FileNotFoundError string
  | Exception string

text \<open>The dictionary \<^verbatim>\<open>image_input\<close> of \<^verbatim>\<open>send_message_to_model\<close>.\<close>

record image_input =
  mime_type :: string
  data :: blob

text \<open>
  The argument handed to \<^verbatim>\<open>chat_session.send_message\<close>: the bare message, or the
  two-element list \<^verbatim>\<open>[message, image_input]\<close>.
\<close>

datatype content =
    Message string
  | MessageImage string image_input

text \<open>
  \<^verbatim>\<open>st.session_state\<close>. Lines 81 to 84 create the two keys with the values
  \<open>''''\<close> and \<open>[]\<close> when they are missing, before anything reads them, so the
  session starts as \<open>initial_session\<close>. An entry of \<^verbatim>\<open>chat_history\<close> is the
  pair \<^verbatim>\<open>(role, text)\<close>.
\<close>

record session_state =
  refined_html :: string
  chat_history :: "(string \<times> string) list"

definition initial_session :: session_state where
  "initial_session = \<lparr>refined_html = [], chat_history = []\<rparr>"

text \<open>
  Everything one run can read or write: the session state, the chat session of the
  model (its own state is opaque, of type \<open>'c\<close>), the files on disk, and \<open>sent\<close>,
  the log of every argument passed to \<^verbatim>\<open>chat_session.send_message\<close>, oldest first.
\<close>

record 'c world =
  session :: session_state
  chat_session :: 'c
  files :: "string \<rightharpoonup> blob"
  sent :: "content list"

text \<open>
  The collaborators the script calls and that are not part of it:
  \<^item> \<open>image_to_jpeg\<close>: lines 68 to 77, PIL opening the upload, converting RGBA to RGB
    and encoding the JPEG bytes; it may raise;
  \<^item> \<open>start_chat\<close>: line 45, the chat session that
    \<^verbatim>\<open>model.start_chat(history=[])\<close> returns;
  \<^item> \<open>chat_send_message\<close>: \<^verbatim>\<open>chat_session.send_message(...).text\<close>, which
    returns a text or raises, and moves the chat session to a new state either way.
\<close>

record ('u, 'c) env =
  image_to_jpeg :: "'u \<Rightarrow> exn + blob"
  start_chat :: 'c
  chat_send_message :: "'c \<Rightarrow> content \<Rightarrow> (exn + string) \<times> 'c"

text \<open>
  What the page supplies to one run: the uploaded file if any, the name that
  \<^verbatim>\<open>tempfile.NamedTemporaryFile\<close> picks (without its suffix), whether the button
  "Code UI" was pressed, and the value of \<^verbatim>\<open>st.chat_input\<close>.
\<close>

record 'u event =
  uploaded_file :: "'u option"
  temp_name :: string
  button :: bool
  user_input :: "string option"

subsection \<open>Constants and prompts\<close>

definition framework :: string where
  "framework = ''Regular CSS''"

definition newline :: string where
  "newline = [CHR 0x0A]"

definition prompt :: string where
  "prompt = ''Describe this UI in accurate details. When you reference a UI element put its name and bounding box in the format: [object name (y_min, x_min, y_max, x_max)]. Also Describe the color of the elements.''"

definition refine_prompt :: "string \<Rightarrow> string" where
  "refine_prompt description = ''Compare the described UI elements with the provided image and identify any missing elements or inaccuracies. Also Describe the color of the elements. Provide a refined and accurate description of the UI elements based on this comparison. Here is the initial description: '' @ description"

definition html_prompt :: "string \<Rightarrow> string" where
  "html_prompt refined_description = ''Create an HTML file based on the following UI description, using the UI elements described in the previous response. Include '' @ framework @ '' CSS within the HTML file to style the elements. Make sure the colors used are the same as the original UI. The UI needs to be responsive and mobile-first, matching the original UI as closely as possible. Do not include any explanations or comments. Avoid using ```html. and ``` at the end. ONLY return the HTML code with inline CSS. Here is the refined description: '' @ refined_description"

definition refine_html_prompt :: "string \<Rightarrow> string" where
  "refine_html_prompt initial_html = ''Validate the following HTML code based on the UI description and image and provide a refined version of the HTML code with '' @ framework @ '' CSS that improves accuracy, responsiveness, and adherence to the original design. ONLY return the refined HTML code with inline CSS. Avoid using ```html. and ``` at the end. Here is the initial HTML: '' @ initial_html"

text \<open>The prompt of line 121, built from the current HTML and the user's request.\<close>

definition chat_refine_html_prompt :: "string \<Rightarrow> string \<Rightarrow> string" where
  "chat_refine_html_prompt current_html request =
     ''Here is the current HTML code:'' @ newline @ ''```html'' @ newline @ current_html @ newline
     @ ''```'' @ newline @ newline @ ''User request: '' @ request @ newline @ newline
     @ ''Based on this request, generate the updated HTML code. Remember to ONLY return the refined HTML code with inline ''
     @ framework @ '' CSS. Avoid using ```html. and ``` at the end.''"

subsection \<open>\<^verbatim>\<open>send_message_to_model\<close>\<close>

text \<open>
  \<^verbatim>\<open>chat_session.send_message(arg)\<close> followed by \<^verbatim>\<open>.text\<close>: the argument is
  logged, the collaborator answers and the chat session takes its new state.
\<close>

definition chat_send :: "('u, 'c) env \<Rightarrow> 'c world \<Rightarrow> content \<Rightarrow> (exn + string) \<times> 'c world" where
  "chat_send E w arg =
     (case chat_send_message E (chat_session w) arg of
        (r, c') \<Rightarrow> (r, w\<lparr>chat_session := c', sent := sent w @ [arg]\<rparr>))"

text \<open>
  \<^verbatim>\<open>if image_path:\<close> is false for \<^verbatim>\<open>None\<close> and for the empty string.
  \<^verbatim>\<open>read_bytes\<close> raises when there is no file at the path, before anything is sent.
\<close>

definition send_message_to_model ::
  "('u, 'c) env \<Rightarrow> 'c world \<Rightarrow> string \<Rightarrow> string option \<Rightarrow> (exn + string) \<times> 'c world" where
  "send_message_to_model E w message image_path =
     (case image_path of
        None \<Rightarrow> chat_send E w (Message message)
      | Some p \<Rightarrow>
          if p = [] then chat_send E w (Message message)
          else
            (case files w p of
               None \<Rightarrow> (Inl (FileNotFoundError p), w)
             | Some bytes \<Rightarrow>
                 chat_send E w (MessageImage message \<lparr>mime_type = ''image/jpeg'', data = bytes\<rparr>)))"

subsection \<open>\<^verbatim>\<open>main\<close>\<close>

text \<open>
  Lines 88 to 105, the body of \<^verbatim>\<open>if st.button("Code UI")\<close>: four calls in a row,
  each prompt built from the text the call before returned. An exception leaves the block
  at once. The result is the exception, if any, and the world the block leaves behind.
\<close>

definition main_code_ui :: "('u, 'c) env \<Rightarrow> 'c world \<Rightarrow> string \<Rightarrow> exn option \<times> 'c world" where
  "main_code_ui E w temp_image_path =
     (case send_message_to_model E w prompt (Some temp_image_path) of
        (Inl e, w1) \<Rightarrow> (Some e, w1)
      | (Inr description, w1) \<Rightarrow>
     (case send_message_to_model E w1 (refine_prompt description) (Some temp_image_path) of
        (Inl e, w2) \<Rightarrow> (Some e, w2)
      | (Inr refined_description, w2) \<Rightarrow>
     (case send_message_to_model E w2 (html_prompt refined_description) (Some temp_image_path) of
        (Inl e, w3) \<Rightarrow> (Some e, w3)
      | (Inr initial_html, w3) \<Rightarrow>
     (case send_message_to_model E w3 (refine_html_prompt initial_html) (Some temp_image_path) of
        (Inl e, w4) \<Rightarrow> (Some e, w4)
      | (Inr html, w4) \<Rightarrow>
          (None, w4\<lparr>session :=
             \<lparr>refined_html = html,
              chat_history = chat_history (session w4) @ [(''Initial HTML Code'', html)]\<rparr>\<rparr>)))))"

text \<open>
  Lines 113 to 126: \<^verbatim>\<open>if user_input:\<close> is false for \<^verbatim>\<open>None\<close> and for the
  empty string. The user's entry is appended first; the call attaches no image.
\<close>

definition main_chat_input ::
  "('u, 'c) env \<Rightarrow> 'c world \<Rightarrow> string option \<Rightarrow> exn option \<times> 'c world" where
  "main_chat_input E w input =
     (case input of
        None \<Rightarrow> (None, w)
      | Some text \<Rightarrow>
          if text = [] then (None, w)
          else
            (let w1 = w\<lparr>session := (session w)\<lparr>chat_history :=
                         chat_history (session w) @ [(''user'', text)]\<rparr>\<rparr>
             in case send_message_to_model E w1
                       (chat_refine_html_prompt (refined_html (session w1)) text) None of
                  (Inl e, w2) \<Rightarrow> (Some e, w2)
                | (Inr updated_html, w2) \<Rightarrow>
                    (None, w2\<lparr>session :=
                       \<lparr>refined_html = updated_html,
                        chat_history = chat_history (session w2) @ [(''assistant'', updated_html)]\<rparr>\<rparr>)))"

text \<open>
  One run of \<^verbatim>\<open>main\<close>. Without an upload nothing happens. Otherwise the image is
  saved as a JPEG under the temporary name (suffix \<^verbatim>\<open>.jpg\<close>), then the button block
  runs if the button was pressed, then the chat block; the first exception ends the run.
\<close>

definition main :: "('u, 'c) env \<Rightarrow> 'u event \<Rightarrow> 'c world \<Rightarrow> exn option \<times> 'c world" where
  "main E ev w =
     (case uploaded_file ev of
        None \<Rightarrow> (None, w)
      | Some f \<Rightarrow>
          (case image_to_jpeg E f of
             Inl e \<Rightarrow> (Some e, w)
           | Inr bytes \<Rightarrow>
               (let temp_image_path = temp_name ev @ ''.jpg'';
                    w0 = w\<lparr>files := (files w)(temp_image_path \<mapsto> bytes)\<rparr>
                in case (if button ev then main_code_ui E w0 temp_image_path else (None, w0)) of
                     (Some e, w1) \<Rightarrow> (Some e, w1)
                   | (None, w1) \<Rightarrow> main_chat_input E w1 (user_input ev))))"

text \<open>
  A session: the executions of the script that a list of events causes, in order. Every
  execution runs the module from the top, so line 45 starts a new chat session before
  line 157 calls \<^verbatim>\<open>main\<close>; the session state and the files are carried over.
\<close>

fun runs :: "('u, 'c) env \<Rightarrow> 'u event list \<Rightarrow> 'c world \<Rightarrow> 'c world" where
  "runs E [] w = w"
| "runs E (ev # evs) w = runs E evs (snd (main E ev (w\<lparr>chat_session := start_chat E\<rparr>)))"

subsection \<open>A scripted model, for concrete runs\<close>

text \<open>
  A stub whose chat session is the list of answers still to give: each call returns the
  next one, whatever it is asked. A new chat session of the stub holds the four answers
  of Scenario A of the specification.
\<close>

definition scenario_A :: "(exn + string) list" where
  "scenario_A = [Inr ''D'', Inr ''RD'', Inr ''<html>A</html>'', Inr ''<html>B</html>'']"

fun scripted :: "(exn + string) list \<Rightarrow> content \<Rightarrow> (exn + string) \<times> (exn + string) list" where
  "scripted [] arg = (Inl (Exception ''no answer left''), [])"
| "scripted (a # as) arg = (a, as)"

definition stub_env :: "(blob, (exn + string) list) env" where
  "stub_env =
     \<lparr>image_to_jpeg = Inr, start_chat = scenario_A, chat_send_message = scripted\<rparr>"

text \<open>
  A stub that is a function of the argument of the call alone: the same argument always
  gets the same answer, and the chat session carries nothing.
\<close>

definition answer_env :: "(content \<Rightarrow> string) \<Rightarrow> (blob, unit) env" where
  "answer_env f =
     \<lparr>image_to_jpeg = Inr, start_chat = (),
      chat_send_message = (\<lambda>c arg. (Inr (f arg), c))\<rparr>"

fun echo :: "content \<Rightarrow> string" where
  "echo (Message m) = m"
| "echo (MessageImage m i) = m"


definition scenario_image :: blob where
  "scenario_image = [0xFF, 0xD8, 0xFF]"

definition scenario_world :: "'c \<Rightarrow> 'c world" where
  "scenario_world c =
     \<lparr>session = initial_session, chat_session = c, files = Map.empty, sent = []\<rparr>"

text \<open>The two user actions: pressing "Code UI", and submitting a text in the chat input.\<close>

definition press_code_ui :: "blob event" where
  "press_code_ui =
     \<lparr>uploaded_file = Some scenario_image, temp_name = ''tmpui'', button = True,
      user_input = None\<rparr>"

definition ask :: "string \<Rightarrow> blob event" where
  "ask request =
     \<lparr>uploaded_file = Some scenario_image, temp_name = ''tmpui'', button = False,
      user_input = Some request\<rparr>"

subsection \<open>The HTML that the history stands for\<close>






text \<open>
  The world that Scenario A leaves behind, with the answers \<open>c\<close> still to come.
\<close>

definition after_A :: "'c \<Rightarrow> 'c world" where
  "after_A c =
     \<lparr>session = \<lparr>refined_html = ''<html>B</html>'',
                 chat_history = [(''Initial HTML Code'', ''<html>B</html>'')]\<rparr>,
      chat_session = c, files = [''tmpui.jpg'' \<mapsto> scenario_image],
      sent = [MessageImage prompt \<lparr>mime_type = ''image/jpeg'', data = scenario_image\<rparr>,
              MessageImage (refine_prompt ''D'')
                \<lparr>mime_type = ''image/jpeg'', data = scenario_image\<rparr>,
              MessageImage (html_prompt ''RD'')
                \<lparr>mime_type = ''image/jpeg'', data = scenario_image\<rparr>,
              MessageImage (refine_html_prompt ''<html>A</html>'')
                \<lparr>mime_type = ''image/jpeg'', data = scenario_image\<rparr>]\<rparr>"

text \<open>The history of \<open>s'\<close> is the history of \<open>s\<close> with entries added at the end.\<close>

definition extends :: "session_state \<Rightarrow> session_state \<Rightarrow> bool" where
  "extends s s' = (\<exists>more. chat_history s' = chat_history s @ more)"

text \<open>Every entry of the history carries the label of the button block.\<close>

definition pipeline_entries_only :: "session_state \<Rightarrow> bool" where
  "pipeline_entries_only s = (\<forall>e \<in> set (chat_history s). fst e = ''Initial HTML Code'')"

section \<open>Properties\<close>

subsection \<open>What a call leaves untouched\<close>

lemma chat_send_session: "session (snd (chat_send E w arg)) = session w"
  by (simp add: chat_send_def split: prod.splits)

lemma chat_send_files: "files (snd (chat_send E w arg)) = files w"
  by (simp add: chat_send_def split: prod.splits)

lemma send_session: "session (snd (send_message_to_model E w m ip)) = session w"
  by (simp add: send_message_to_model_def chat_send_session split: option.splits)

lemma send_files: "files (snd (send_message_to_model E w m ip)) = files w"
  by (simp add: send_message_to_model_def chat_send_files split: option.splits)

lemma send_session_eq: "send_message_to_model E w m ip = (r, w') \<Longrightarrow> session w' = session w"
  using send_session [of E w m ip] by simp

lemma send_files_eq: "send_message_to_model E w m ip = (r, w') \<Longrightarrow> files w' = files w"
  using send_files [of E w m ip] by simp

subsection \<open>The button block\<close>

lemma main_code_ui_success:
  assumes "send_message_to_model E w0 prompt (Some p) = (Inr d, w1)"
    and "send_message_to_model E w1 (refine_prompt d) (Some p) = (Inr rd, w2)"
    and "send_message_to_model E w2 (html_prompt rd) (Some p) = (Inr a, w3)"
    and "send_message_to_model E w3 (refine_html_prompt a) (Some p) = (Inr b, w4)"
  shows "main_code_ui E w0 p =
    (None, w4\<lparr>session := \<lparr>refined_html = b,
        chat_history = chat_history (session w0) @ [(''Initial HTML Code'', b)]\<rparr>\<rparr>)"
proof -
  have "session w4 = session w0"
    using assms by (metis send_session_eq)
  then show ?thesis
    using assms by (simp add: main_code_ui_def)
qed

lemma main_button_only:
  assumes "uploaded_file ev = Some f" and "image_to_jpeg E f = Inr bytes"
    and "button ev" and "user_input ev = None"
  shows "main E ev w =
    main_code_ui E (w\<lparr>files := (files w)(temp_name ev @ ''.jpg'' \<mapsto> bytes)\<rparr>)
      (temp_name ev @ ''.jpg'')"
  using assms by (simp add: main_def main_chat_input_def Let_def split: prod.splits option.splits)

lemma scripted_send:
  "files w p = Some bytes \<Longrightarrow> p \<noteq> [] \<Longrightarrow> chat_session w = a # as \<Longrightarrow>
   send_message_to_model stub_env w m (Some p) =
     (a, w\<lparr>chat_session := as,
          sent := sent w @ [MessageImage m \<lparr>mime_type = ''image/jpeg'', data = bytes\<rparr>]\<rparr>)"
  by (simp add: send_message_to_model_def chat_send_def stub_env_def)

text \<open>
  C1. When the upload is readable, the button "Code UI" was pressed and the four model
  calls return the texts \<open>d\<close>, \<open>rd\<close>, \<open>a\<close> and \<open>b\<close> in turn, the run reports no
  exception, \<^verbatim>\<open>refined_html\<close> is afterwards exactly \<open>b\<close>, the text of the fourth
  call, and the history is the one before the run followed by one entry, whose text is
  \<open>b\<close>.
\<close>

theorem code_ui_commits_stage4:
  assumes up: "uploaded_file ev = Some f" and jpg: "image_to_jpeg E f = Inr bytes"
    and btn: "button ev" and noinput: "user_input ev = None"
    and p: "p = temp_name ev @ ''.jpg''"
    and w0: "w0 = w\<lparr>files := (files w)(p \<mapsto> bytes)\<rparr>"
    and s1: "send_message_to_model E w0 prompt (Some p) = (Inr d, w1)"
    and s2: "send_message_to_model E w1 (refine_prompt d) (Some p) = (Inr rd, w2)"
    and s3: "send_message_to_model E w2 (html_prompt rd) (Some p) = (Inr a, w3)"
    and s4: "send_message_to_model E w3 (refine_html_prompt a) (Some p) = (Inr b, w4)"
  shows "fst (main E ev w) = None
    \<and> refined_html (session (snd (main E ev w))) = b
    \<and> chat_history (session (snd (main E ev w)))
        = chat_history (session w) @ [(''Initial HTML Code'', b)]"
proof -
  have "main E ev w = main_code_ui E w0 p"
    using main_button_only [OF up jpg btn noinput] by (simp add: p w0)
  also have "\<dots> = (None, w4\<lparr>session := \<lparr>refined_html = b,
        chat_history = chat_history (session w0) @ [(''Initial HTML Code'', b)]\<rparr>\<rparr>)"
    by (rule main_code_ui_success [OF s1 s2 s3 s4])
  finally show ?thesis by (simp add: w0)
qed

text \<open>
  Scenario A of the specification: the stub answers \<open>D\<close>, \<open>RD\<close>,
  \<open><html>A</html>\<close> and \<open><html>B</html>\<close>.
\<close>

theorem code_ui_commits_stage4_witness:
  "fst (main stub_env press_code_ui (scenario_world scenario_A)) = None
   \<and> refined_html (session (snd (main stub_env press_code_ui (scenario_world scenario_A))))
       = ''<html>B</html>''
   \<and> chat_history (session (snd (main stub_env press_code_ui (scenario_world scenario_A))))
       = [(''Initial HTML Code'', ''<html>B</html>'')]"
proof -
  define w0 where "w0 = (scenario_world scenario_A)
    \<lparr>files := (files (scenario_world scenario_A))(''tmpui.jpg'' \<mapsto> scenario_image)\<rparr>"
  define w1 where "w1 = snd (send_message_to_model stub_env w0 prompt (Some ''tmpui.jpg''))"
  define w2 where
    "w2 = snd (send_message_to_model stub_env w1 (refine_prompt ''D'') (Some ''tmpui.jpg''))"
  define w3 where
    "w3 = snd (send_message_to_model stub_env w2 (html_prompt ''RD'') (Some ''tmpui.jpg''))"
  define w4 where
    "w4 = snd (send_message_to_model stub_env w3 (refine_html_prompt ''<html>A</html>'')
                 (Some ''tmpui.jpg''))"
  note unfold = w0_def scenario_world_def scenario_A_def scripted_send
  have s1: "send_message_to_model stub_env w0 prompt (Some ''tmpui.jpg'') = (Inr ''D'', w1)"
    unfolding w1_def by (simp add: unfold)
  have s2: "send_message_to_model stub_env w1 (refine_prompt ''D'') (Some ''tmpui.jpg'')
      = (Inr ''RD'', w2)"
    unfolding w2_def w1_def by (simp add: unfold)
  have s3: "send_message_to_model stub_env w2 (html_prompt ''RD'') (Some ''tmpui.jpg'')
      = (Inr ''<html>A</html>'', w3)"
    unfolding w3_def w2_def w1_def by (simp add: unfold)
  have s4: "send_message_to_model stub_env w3 (refine_html_prompt ''<html>A</html>'')
      (Some ''tmpui.jpg'') = (Inr ''<html>B</html>'', w4)"
    unfolding w4_def w3_def w2_def w1_def by (simp add: unfold)
  show ?thesis
    using code_ui_commits_stage4 [of press_code_ui scenario_image stub_env scenario_image
        "''tmpui.jpg''" w0 "scenario_world scenario_A" "''D''" w1 "''RD''" w2
        "''<html>A</html>''" w3 "''<html>B</html>''" w4, OF _ _ _ _ _ _ s1 s2 s3 s4]
    by (simp add: press_code_ui_def stub_env_def w0_def scenario_world_def initial_session_def)
qed

subsection \<open>The chat block\<close>

lemma main_after_button:
  assumes "uploaded_file ev = Some f" and "image_to_jpeg E f = Inr bytes"
    and "(if button ev
          then main_code_ui E (w\<lparr>files := (files w)(temp_name ev @ ''.jpg'' \<mapsto> bytes)\<rparr>)
                 (temp_name ev @ ''.jpg'')
          else (None, w\<lparr>files := (files w)(temp_name ev @ ''.jpg'' \<mapsto> bytes)\<rparr>)) = (None, wb)"
  shows "main E ev w = main_chat_input E wb (user_input ev)"
  using assms by (simp add: main_def Let_def)

lemma main_chat_input_success:
  assumes "t \<noteq> []"
    and "send_message_to_model E
           (w\<lparr>session := (session w)\<lparr>chat_history := chat_history (session w) @ [(''user'', t)]\<rparr>\<rparr>)
           (chat_refine_html_prompt (refined_html (session w)) t) None = (Inr u, w2)"
  shows "main_chat_input E w (Some t) =
    (None, w2\<lparr>session := \<lparr>refined_html = u,
        chat_history = chat_history (session w) @ [(''user'', t), (''assistant'', u)]\<rparr>\<rparr>)"
proof -
  have "session w2 = (session w)\<lparr>chat_history := chat_history (session w) @ [(''user'', t)]\<rparr>"
    using send_session_eq [OF assms(2)] by simp
  then show ?thesis
    using assms by (simp add: main_chat_input_def Let_def)
qed

lemma main_chat_input_failure:
  assumes "t \<noteq> []"
    and "send_message_to_model E
           (w\<lparr>session := (session w)\<lparr>chat_history := chat_history (session w) @ [(''user'', t)]\<rparr>\<rparr>)
           (chat_refine_html_prompt (refined_html (session w)) t) None = (Inl e, w2)"
  shows "main_chat_input E w (Some t) = (Some e, w2)"
    and "session w2 = (session w)\<lparr>chat_history := chat_history (session w) @ [(''user'', t)]\<rparr>"
proof -
  show "session w2 = (session w)\<lparr>chat_history := chat_history (session w) @ [(''user'', t)]\<rparr>"
    using send_session_eq [OF assms(2)] by simp
  show "main_chat_input E w (Some t) = (Some e, w2)"
    using assms by (simp add: main_chat_input_def Let_def)
qed

text \<open>
  C3. A run with a non-empty chat input, whose button block (if it ran) raised nothing,
  appends the user's entry to the history and only then calls the model, from the world
  \<open>w1\<close> that already holds that entry. If the call returns \<open>u\<close>,
  \<^verbatim>\<open>refined_html\<close> becomes \<open>u\<close> and the history has grown by the user's entry
  and the assistant's, in that order. If the call raises, the run reports the exception,
  \<^verbatim>\<open>refined_html\<close> is unchanged and the history has grown by the user's entry alone.
\<close>

theorem follow_up_turn:
  assumes up: "uploaded_file ev = Some f" and jpg: "image_to_jpeg E f = Inr bytes"
    and p: "p = temp_name ev @ ''.jpg''"
    and w0: "w0 = w\<lparr>files := (files w)(p \<mapsto> bytes)\<rparr>"
    and pre: "(if button ev then main_code_ui E w0 p else (None, w0)) = (None, wb)"
    and inp: "user_input ev = Some t" and ne: "t \<noteq> []"
    and w1: "w1 = wb\<lparr>session := (session wb)\<lparr>chat_history :=
                     chat_history (session wb) @ [(''user'', t)]\<rparr>\<rparr>"
    and pr: "pr = chat_refine_html_prompt (refined_html (session wb)) t"
  shows "(send_message_to_model E w1 pr None = (Inr u, w2) \<longrightarrow>
            fst (main E ev w) = None
          \<and> refined_html (session (snd (main E ev w))) = u
          \<and> chat_history (session (snd (main E ev w)))
              = chat_history (session wb) @ [(''user'', t), (''assistant'', u)])
       \<and> (send_message_to_model E w1 pr None = (Inl e, w2') \<longrightarrow>
            fst (main E ev w) = Some e
          \<and> refined_html (session (snd (main E ev w))) = refined_html (session wb)
          \<and> chat_history (session (snd (main E ev w)))
              = chat_history (session wb) @ [(''user'', t)])"
proof -
  have "(if button ev
          then main_code_ui E (w\<lparr>files := (files w)(temp_name ev @ ''.jpg'' \<mapsto> bytes)\<rparr>)
                 (temp_name ev @ ''.jpg'')
          else (None, w\<lparr>files := (files w)(temp_name ev @ ''.jpg'' \<mapsto> bytes)\<rparr>)) = (None, wb)"
    using pre unfolding w0 p .
  from main_after_button [OF up jpg this]
  have m: "main E ev w = main_chat_input E wb (Some t)"
    by (simp add: inp)
  show ?thesis
  proof (intro conjI impI)
    assume s: "send_message_to_model E w1 pr None = (Inr u, w2)"
    have r: "main E ev w = (None, w2\<lparr>session := \<lparr>refined_html = u,
        chat_history = chat_history (session wb) @ [(''user'', t), (''assistant'', u)]\<rparr>\<rparr>)"
      using main_chat_input_success [OF ne, of E wb u w2] s by (simp add: m w1 pr)
    show "fst (main E ev w) = None" by (simp add: r)
    show "refined_html (session (snd (main E ev w))) = u" by (simp add: r)
    show "chat_history (session (snd (main E ev w)))
              = chat_history (session wb) @ [(''user'', t), (''assistant'', u)]" by (simp add: r)
  next
    assume s: "send_message_to_model E w1 pr None = (Inl e, w2')"
    have r: "main E ev w = (Some e, w2')"
      and r': "session w2' = (session wb)\<lparr>chat_history := chat_history (session wb) @ [(''user'', t)]\<rparr>"
      using main_chat_input_failure [OF ne, of E wb e w2'] s by (simp_all add: m w1 pr)
    show "fst (main E ev w) = Some e" by (simp add: r)
    show "refined_html (session (snd (main E ev w))) = refined_html (session wb)" by (simp add: r r')
    show "chat_history (session (snd (main E ev w)))
              = chat_history (session wb) @ [(''user'', t)]" by (simp add: r r')
  qed
qed


lemma scripted_send_text:
  "chat_session w = a # as \<Longrightarrow>
   send_message_to_model stub_env w m None = (a, w\<lparr>chat_session := as, sent := sent w @ [Message m]\<rparr>)"
  by (simp add: send_message_to_model_def chat_send_def stub_env_def)

text \<open>
  Scenario B of the specification, and the same request when the model call raises.
\<close>

theorem follow_up_turn_witness:
  "(fst (main stub_env (ask ''make the button red'') (after_A [Inr ''<html>B-red</html>''])) = None
    \<and> refined_html (session (snd (main stub_env (ask ''make the button red'')
          (after_A [Inr ''<html>B-red</html>''])))) = ''<html>B-red</html>''
    \<and> chat_history (session (snd (main stub_env (ask ''make the button red'')
          (after_A [Inr ''<html>B-red</html>''])))) =
        [(''Initial HTML Code'', ''<html>B</html>''), (''user'', ''make the button red''),
         (''assistant'', ''<html>B-red</html>'')])
   \<and> (fst (main stub_env (ask ''make the button red'') (after_A [Inl (Exception ''quota'')]))
        = Some (Exception ''quota'')
    \<and> refined_html (session (snd (main stub_env (ask ''make the button red'')
          (after_A [Inl (Exception ''quota'')])))) = ''<html>B</html>''
    \<and> chat_history (session (snd (main stub_env (ask ''make the button red'')
          (after_A [Inl (Exception ''quota'')])))) =
        [(''Initial HTML Code'', ''<html>B</html>''), (''user'', ''make the button red'')])"
proof -
  let ?t = "''make the button red''"
  let ?pr = "chat_refine_html_prompt ''<html>B</html>'' ?t"
  define w1 :: "(exn + string) \<Rightarrow> (exn + string) list world" where
    "w1 a = (after_A [a])\<lparr>session := (session (after_A [a]))\<lparr>chat_history :=
               chat_history (session (after_A [a])) @ [(''user'', ?t)]\<rparr>\<rparr>" for a
  define w2 :: "(exn + string) \<Rightarrow> (exn + string) list world" where
    "w2 a = (w1 a)\<lparr>chat_session := [], sent := sent (w1 a) @ [Message ?pr]\<rparr>" for a
  have call: "send_message_to_model stub_env (w1 a) ?pr None = (a, w2 a)" for a
    by (simp add: scripted_send_text w1_def w2_def after_A_def)
  have html: "refined_html (session (after_A c)) = ''<html>B</html>''"
    and hist: "chat_history (session (after_A c)) = [(''Initial HTML Code'', ''<html>B</html>'')]"
    for c :: "(exn + string) list"
    by (simp_all add: after_A_def)
  have hyps: "uploaded_file (ask ?t) = Some scenario_image"
    "image_to_jpeg stub_env scenario_image = Inr scenario_image"
    "''tmpui.jpg'' = temp_name (ask ?t) @ ''.jpg''"
    "after_A [a] = (after_A [a])\<lparr>files := (files (after_A [a]))(''tmpui.jpg'' \<mapsto> scenario_image)\<rparr>"
    "(if button (ask ?t) then main_code_ui stub_env (after_A [a]) ''tmpui.jpg''
      else (None, after_A [a])) = (None, after_A [a])"
    "user_input (ask ?t) = Some ?t" "?t \<noteq> []"
    "w1 a = (after_A [a])\<lparr>session := (session (after_A [a]))\<lparr>chat_history :=
               chat_history (session (after_A [a])) @ [(''user'', ?t)]\<rparr>\<rparr>"
    "?pr = chat_refine_html_prompt (refined_html (session (after_A [a]))) ?t" for a
    by (simp_all add: ask_def stub_env_def after_A_def w1_def)
  note ok = follow_up_turn [OF hyps, of "Inr ''<html>B-red</html>''" "''<html>B-red</html>''"
      "w2 (Inr ''<html>B-red</html>'')" "Exception ''quota''" "w2 (Inr ''<html>B-red</html>'')",
      THEN conjunct1, THEN mp, OF call]
  note ko = follow_up_turn [OF hyps, of "Inl (Exception ''quota'')" "''<html>B-red</html>''"
      "w2 (Inl (Exception ''quota''))" "Exception ''quota''" "w2 (Inl (Exception ''quota''))",
      THEN conjunct2, THEN mp, OF call]
  show ?thesis using ok ko by (simp add: html hist)
qed

lemma main_no_button:
  assumes "uploaded_file ev = Some f" and "image_to_jpeg E f = Inr bytes" and "\<not> button ev"
  shows "main E ev w =
    main_chat_input E (w\<lparr>files := (files w)(temp_name ev @ ''.jpg'' \<mapsto> bytes)\<rparr>) (user_input ev)"
  using assms by (simp add: main_def Let_def)

text \<open>
  C2 (as the code has it). The chat block does not look at \<^verbatim>\<open>refined_html\<close> before
  it runs. A non-empty request submitted while \<^verbatim>\<open>refined_html\<close> is empty is handled
  like any other: the user's entry is appended, the model is called with the prompt built
  around the empty HTML, and when the call returns \<open>u\<close> the run reports no exception,
  \<^verbatim>\<open>refined_html\<close> becomes \<open>u\<close> and the assistant's entry is appended.
\<close>

theorem follow_up_on_empty_html:
  assumes up: "uploaded_file ev = Some f" and jpg: "image_to_jpeg E f = Inr bytes"
    and nbtn: "\<not> button ev"
    and inp: "user_input ev = Some t" and ne: "t \<noteq> []"
    and empty: "refined_html (session w) = []"
    and w1: "w1 = w\<lparr>files := (files w)(temp_name ev @ ''.jpg'' \<mapsto> bytes),
                    session := (session w)\<lparr>chat_history :=
                      chat_history (session w) @ [(''user'', t)]\<rparr>\<rparr>"
    and s: "send_message_to_model E w1 (chat_refine_html_prompt [] t) None = (Inr u, w2)"
  shows "fst (main E ev w) = None
    \<and> refined_html (session (snd (main E ev w))) = u
    \<and> chat_history (session (snd (main E ev w)))
        = chat_history (session w) @ [(''user'', t), (''assistant'', u)]"
proof -
  let ?w0 = "w\<lparr>files := (files w)(temp_name ev @ ''.jpg'' \<mapsto> bytes)\<rparr>"
  have m: "main E ev w = main_chat_input E ?w0 (Some t)"
    using main_no_button [OF up jpg nbtn] by (simp add: inp)
  have "main_chat_input E ?w0 (Some t) =
    (None, w2\<lparr>session := \<lparr>refined_html = u,
        chat_history = chat_history (session ?w0) @ [(''user'', t), (''assistant'', u)]\<rparr>\<rparr>)"
    using s by (intro main_chat_input_success [OF ne]) (simp add: w1 empty)
  then show ?thesis by (simp add: m)
qed

text \<open>
  A request submitted before any run of the pipeline: the session is the initial one, and
  the stub answers \<open><html>R</html>\<close>.
\<close>

theorem follow_up_on_empty_html_witness:
  "fst (main stub_env (ask ''make the button red'') (scenario_world [Inr ''<html>R</html>''])) = None
   \<and> refined_html (session (snd (main stub_env (ask ''make the button red'')
         (scenario_world [Inr ''<html>R</html>''])))) = ''<html>R</html>''
   \<and> chat_history (session (snd (main stub_env (ask ''make the button red'')
         (scenario_world [Inr ''<html>R</html>''])))) =
       [(''user'', ''make the button red''), (''assistant'', ''<html>R</html>'')]"
proof -
  let ?t = "''make the button red''"
  let ?w = "scenario_world [Inr ''<html>R</html>'' :: exn + string]"
  let ?w1 = "?w\<lparr>files := (files ?w)(temp_name (ask ?t) @ ''.jpg'' \<mapsto> scenario_image),
                    session := (session ?w)\<lparr>chat_history :=
                      chat_history (session ?w) @ [(''user'', ?t)]\<rparr>\<rparr>"
  have call: "send_message_to_model stub_env ?w1 (chat_refine_html_prompt [] ?t) None
      = (Inr ''<html>R</html>'',
         ?w1\<lparr>chat_session := [], sent := sent ?w1 @ [Message (chat_refine_html_prompt [] ?t)]\<rparr>)"
    by (simp add: scripted_send_text scenario_world_def)
  have hyps: "uploaded_file (ask ?t) = Some scenario_image"
    "image_to_jpeg stub_env scenario_image = Inr scenario_image"
    "\<not> button (ask ?t)" "user_input (ask ?t) = Some ?t" "?t \<noteq> []"
    "refined_html (session ?w) = []"
    by (simp_all add: ask_def stub_env_def scenario_world_def initial_session_def)
  show ?thesis
    using follow_up_on_empty_html [OF hyps refl call]
    by (simp add: scenario_world_def initial_session_def)
qed

text \<open>
  C2 as the specification states it fails: the request above, submitted before any run of
  the pipeline, is not rejected, and an assistant's entry is appended to the history.
\<close>

theorem follow_up_on_empty_html_counterexample:
  "refined_html (session (scenario_world [Inr ''<html>R</html>'' :: exn + string])) = []
   \<and> chat_history (session (scenario_world [Inr ''<html>R</html>'' :: exn + string])) = []
   \<and> fst (main stub_env (ask ''make the button red'') (scenario_world [Inr ''<html>R</html>''])) = None
   \<and> (''assistant'', ''<html>R</html>'')
        \<in> set (chat_history (session (snd (main stub_env (ask ''make the button red'')
              (scenario_world [Inr ''<html>R</html>''])))))"
  by (simp add: main_def main_chat_input_def send_message_to_model_def chat_send_def Let_def
      ask_def stub_env_def scenario_world_def initial_session_def)

subsection \<open>A stage that raises\<close>

lemma chat_send_sent: "sent (snd (chat_send E w arg)) = sent w @ [arg]"
  by (simp add: chat_send_def split: prod.splits)

lemma send_sent_length:
  "send_message_to_model E w m ip = (r, w') \<Longrightarrow> length (sent w') \<le> length (sent w) + 1"
proof -
  have "length (sent (snd (send_message_to_model E w m ip))) \<le> length (sent w) + 1"
    by (simp add: send_message_to_model_def chat_send_sent split: option.splits)
  then show "send_message_to_model E w m ip = (r, w') \<Longrightarrow> length (sent w') \<le> length (sent w) + 1"
    by simp
qed

lemma main_button_raises:
  assumes "uploaded_file ev = Some f" and "image_to_jpeg E f = Inr bytes" and "button ev"
    and "main_code_ui E (w\<lparr>files := (files w)(temp_name ev @ ''.jpg'' \<mapsto> bytes)\<rparr>)
           (temp_name ev @ ''.jpg'') = (Some e, w')"
  shows "main E ev w = (Some e, w')"
  using assms by (simp add: main_def Let_def)

text \<open>
  C4. In a run with the button pressed, let the model call of some stage raise \<open>e\<close>
  after the stages before it returned. Then the run ends with \<open>e\<close> in the very world
  that the failed call left: no later stage is called (the log of calls has grown by at
  most the number of the failed stage), the chat block is skipped, and the session state
  (\<^verbatim>\<open>refined_html\<close> and the whole history) is the one before the run.
\<close>

theorem failed_stage_aborts_run:
  assumes up: "uploaded_file ev = Some f" and jpg: "image_to_jpeg E f = Inr bytes"
    and btn: "button ev"
    and p: "p = temp_name ev @ ''.jpg''"
    and w0: "w0 = w\<lparr>files := (files w)(p \<mapsto> bytes)\<rparr>"
  shows "(send_message_to_model E w0 prompt (Some p) = (Inl e, w1) \<longrightarrow>
            main E ev w = (Some e, w1) \<and> session w1 = session w
          \<and> length (sent w1) \<le> length (sent w) + 1)
       \<and> (send_message_to_model E w0 prompt (Some p) = (Inr d, w1)
          \<and> send_message_to_model E w1 (refine_prompt d) (Some p) = (Inl e, w2) \<longrightarrow>
            main E ev w = (Some e, w2) \<and> session w2 = session w
          \<and> length (sent w2) \<le> length (sent w) + 2)
       \<and> (send_message_to_model E w0 prompt (Some p) = (Inr d, w1)
          \<and> send_message_to_model E w1 (refine_prompt d) (Some p) = (Inr rd, w2)
          \<and> send_message_to_model E w2 (html_prompt rd) (Some p) = (Inl e, w3) \<longrightarrow>
            main E ev w = (Some e, w3) \<and> session w3 = session w
          \<and> length (sent w3) \<le> length (sent w) + 3)
       \<and> (send_message_to_model E w0 prompt (Some p) = (Inr d, w1)
          \<and> send_message_to_model E w1 (refine_prompt d) (Some p) = (Inr rd, w2)
          \<and> send_message_to_model E w2 (html_prompt rd) (Some p) = (Inr a, w3)
          \<and> send_message_to_model E w3 (refine_html_prompt a) (Some p) = (Inl e, w4) \<longrightarrow>
            main E ev w = (Some e, w4) \<and> session w4 = session w
          \<and> length (sent w4) \<le> length (sent w) + 4)"
proof -
  have s0: "session w0 = session w" and l0: "sent w0 = sent w"
    by (simp_all add: w0)
  note raises = main_button_raises [OF up jpg btn, of w, folded p, folded w0]
  show ?thesis
  proof (intro conjI impI; (elim conjE)?)
    assume 1: "send_message_to_model E w0 prompt (Some p) = (Inl e, w1)"
    show "main E ev w = (Some e, w1)"
      by (rule raises) (simp add: main_code_ui_def 1)
    show "session w1 = session w"
      using send_session_eq [OF 1] s0 by simp
    show "length (sent w1) \<le> length (sent w) + 1"
      using send_sent_length [OF 1] l0 by simp
  next
    assume 1: "send_message_to_model E w0 prompt (Some p) = (Inr d, w1)"
      and 2: "send_message_to_model E w1 (refine_prompt d) (Some p) = (Inl e, w2)"
    show "main E ev w = (Some e, w2)"
      by (rule raises) (simp add: main_code_ui_def 1 2)
    show "session w2 = session w"
      using send_session_eq [OF 1] send_session_eq [OF 2] s0 by simp
    show "length (sent w2) \<le> length (sent w) + 2"
      using send_sent_length [OF 1] send_sent_length [OF 2] l0 by simp
  next
    assume 1: "send_message_to_model E w0 prompt (Some p) = (Inr d, w1)"
      and 2: "send_message_to_model E w1 (refine_prompt d) (Some p) = (Inr rd, w2)"
      and 3: "send_message_to_model E w2 (html_prompt rd) (Some p) = (Inl e, w3)"
    show "main E ev w = (Some e, w3)"
      by (rule raises) (simp add: main_code_ui_def 1 2 3)
    show "session w3 = session w"
      using send_session_eq [OF 1] send_session_eq [OF 2] send_session_eq [OF 3] s0 by simp
    show "length (sent w3) \<le> length (sent w) + 3"
      using send_sent_length [OF 1] send_sent_length [OF 2] send_sent_length [OF 3] l0 by simp
  next
    assume 1: "send_message_to_model E w0 prompt (Some p) = (Inr d, w1)"
      and 2: "send_message_to_model E w1 (refine_prompt d) (Some p) = (Inr rd, w2)"
      and 3: "send_message_to_model E w2 (html_prompt rd) (Some p) = (Inr a, w3)"
      and 4: "send_message_to_model E w3 (refine_html_prompt a) (Some p) = (Inl e, w4)"
    show "main E ev w = (Some e, w4)"
      by (rule raises) (simp add: main_code_ui_def 1 2 3 4)
    show "session w4 = session w"
      using send_session_eq [OF 1] send_session_eq [OF 2] send_session_eq [OF 3]
        send_session_eq [OF 4] s0 by simp
    show "length (sent w4) \<le> length (sent w) + 4"
      using send_sent_length [OF 1] send_sent_length [OF 2] send_sent_length [OF 3]
        send_sent_length [OF 4] l0 by simp
  qed
qed

text \<open>
  Scenario C of the specification, after Scenario A: the stub answers \<open>D\<close> and
  \<open>RD\<close> and raises on the third stage; a fourth answer is left unused.
\<close>

theorem failed_stage_aborts_run_witness:
  "fst (main stub_env press_code_ui
          (after_A [Inr ''D'', Inr ''RD'', Inl (Exception ''quota''), Inr ''<html>C</html>'']))
     = Some (Exception ''quota'')
   \<and> session (snd (main stub_env press_code_ui
          (after_A [Inr ''D'', Inr ''RD'', Inl (Exception ''quota''), Inr ''<html>C</html>''])))
     = \<lparr>refined_html = ''<html>B</html>'',
        chat_history = [(''Initial HTML Code'', ''<html>B</html>'')]\<rparr>
   \<and> chat_session (snd (main stub_env press_code_ui
          (after_A [Inr ''D'', Inr ''RD'', Inl (Exception ''quota''), Inr ''<html>C</html>''])))
     = [Inr ''<html>C</html>'']
   \<and> length (sent (snd (main stub_env press_code_ui
          (after_A [Inr ''D'', Inr ''RD'', Inl (Exception ''quota''), Inr ''<html>C</html>'']))))
     \<le> 4 + 3"
proof -
  let ?w = "after_A [Inr ''D'', Inr ''RD'', Inl (Exception ''quota''), Inr ''<html>C</html>'']"
  let ?img = "\<lparr>mime_type = ''image/jpeg'', data = scenario_image\<rparr>"
  let ?w1 = "?w\<lparr>chat_session := [Inr ''RD'', Inl (Exception ''quota''), Inr ''<html>C</html>''],
                 sent := sent ?w @ [MessageImage prompt ?img]\<rparr>"
  let ?w2 = "?w\<lparr>chat_session := [Inl (Exception ''quota''), Inr ''<html>C</html>''],
                 sent := sent ?w @ [MessageImage prompt ?img, MessageImage (refine_prompt ''D'') ?img]\<rparr>"
  let ?w3 = "?w\<lparr>chat_session := [Inr ''<html>C</html>''],
                 sent := sent ?w @ [MessageImage prompt ?img, MessageImage (refine_prompt ''D'') ?img,
                   MessageImage (html_prompt ''RD'') ?img]\<rparr>"
  have w0: "?w = ?w\<lparr>files := (files ?w)(''tmpui.jpg'' \<mapsto> scenario_image)\<rparr>"
    by (simp add: after_A_def)
  have hyps: "uploaded_file press_code_ui = Some scenario_image"
    "image_to_jpeg stub_env scenario_image = Inr scenario_image"
    "button press_code_ui" "''tmpui.jpg'' = temp_name press_code_ui @ ''.jpg''"
    by (simp_all add: press_code_ui_def stub_env_def)
  have calls: "send_message_to_model stub_env ?w prompt (Some ''tmpui.jpg'') = (Inr ''D'', ?w1)
    \<and> send_message_to_model stub_env ?w1 (refine_prompt ''D'') (Some ''tmpui.jpg'') = (Inr ''RD'', ?w2)
    \<and> send_message_to_model stub_env ?w2 (html_prompt ''RD'') (Some ''tmpui.jpg'')
        = (Inl (Exception ''quota''), ?w3)"
    by (simp add: scripted_send after_A_def)
  note third = failed_stage_aborts_run [OF hyps w0, THEN conjunct2, THEN conjunct2, THEN conjunct1,
      THEN mp, OF calls]
  show ?thesis using third by (simp add: after_A_def)
qed

subsection \<open>What one run does to the session state\<close>

lemma main_code_ui_cases:
  obtains (raised) e where "fst (main_code_ui E w p) = Some e"
      and "session (snd (main_code_ui E w p)) = session w"
  | (committed) b where "fst (main_code_ui E w p) = None"
      and "session (snd (main_code_ui E w p)) =
        \<lparr>refined_html = b, chat_history = chat_history (session w) @ [(''Initial HTML Code'', b)]\<rparr>"
proof -
  obtain r1 w1 where 1: "send_message_to_model E w prompt (Some p) = (r1, w1)"
    by (cases "send_message_to_model E w prompt (Some p)")
  note s1 = send_session_eq [OF 1]
  show thesis
  proof (cases r1)
    case (Inl e)
    with 1 s1 show thesis by (intro raised [of e]) (simp_all add: main_code_ui_def)
  next
    case d: (Inr d)
    obtain r2 w2 where 2: "send_message_to_model E w1 (refine_prompt d) (Some p) = (r2, w2)"
      by (cases "send_message_to_model E w1 (refine_prompt d) (Some p)")
    note s2 = send_session_eq [OF 2]
    show thesis
    proof (cases r2)
      case (Inl e)
      with 1 2 d s1 s2 show thesis by (intro raised [of e]) (simp_all add: main_code_ui_def)
    next
      case rd: (Inr rd)
      obtain r3 w3 where 3: "send_message_to_model E w2 (html_prompt rd) (Some p) = (r3, w3)"
        by (cases "send_message_to_model E w2 (html_prompt rd) (Some p)")
      note s3 = send_session_eq [OF 3]
      show thesis
      proof (cases r3)
        case (Inl e)
        with 1 2 3 d rd s1 s2 s3 show thesis
          by (intro raised [of e]) (simp_all add: main_code_ui_def)
      next
        case a: (Inr a)
        obtain r4 w4 where 4: "send_message_to_model E w3 (refine_html_prompt a) (Some p) = (r4, w4)"
          by (cases "send_message_to_model E w3 (refine_html_prompt a) (Some p)")
        note s4 = send_session_eq [OF 4]
        show thesis
        proof (cases r4)
          case (Inl e)
          with 1 2 3 4 d rd a s1 s2 s3 s4 show thesis
            by (intro raised [of e]) (simp_all add: main_code_ui_def)
        next
          case (Inr b)
          with 1 2 3 4 d rd a s1 s2 s3 s4 show thesis
            by (intro committed [of b]) (simp_all add: main_code_ui_def)
        qed
      qed
    qed
  qed
qed

lemma main_chat_input_cases:
  obtains (skipped) "i = None \<or> i = Some []" and "main_chat_input E w i = (None, w)"
  | (raised) t e where "i = Some t" and "t \<noteq> []" and "fst (main_chat_input E w i) = Some e"
      and "session (snd (main_chat_input E w i)) =
        (session w)\<lparr>chat_history := chat_history (session w) @ [(''user'', t)]\<rparr>"
  | (answered) t u where "i = Some t" and "t \<noteq> []" and "fst (main_chat_input E w i) = None"
      and "session (snd (main_chat_input E w i)) =
        \<lparr>refined_html = u,
         chat_history = chat_history (session w) @ [(''user'', t), (''assistant'', u)]\<rparr>"
proof (cases i)
  case None
  then show thesis by (intro skipped) (simp_all add: main_chat_input_def)
next
  case (Some t)
  show thesis
  proof (cases "t = []")
    case True
    with Some show thesis by (intro skipped) (simp_all add: main_chat_input_def)
  next
    case False
    let ?w1 = "w\<lparr>session := (session w)\<lparr>chat_history :=
                  chat_history (session w) @ [(''user'', t)]\<rparr>\<rparr>"
    obtain r w2 where s: "send_message_to_model E ?w1
        (chat_refine_html_prompt (refined_html (session w)) t) None = (r, w2)"
      by (cases "send_message_to_model E ?w1
        (chat_refine_html_prompt (refined_html (session w)) t) None")
    show thesis
    proof (cases r)
      case (Inl e)
      with s have "main_chat_input E w (Some t) = (Some e, w2)"
        and "session w2 = (session w)\<lparr>chat_history := chat_history (session w) @ [(''user'', t)]\<rparr>"
        using main_chat_input_failure [OF False, of E w e w2] by simp_all
      with Some False show thesis by (intro raised [of t e]) simp_all
    next
      case (Inr u)
      with s have "main_chat_input E w (Some t) =
          (None, w2\<lparr>session := \<lparr>refined_html = u,
            chat_history = chat_history (session w) @ [(''user'', t), (''assistant'', u)]\<rparr>\<rparr>)"
        using main_chat_input_success [OF False, of E w u w2] by simp
      with Some False show thesis by (intro answered [of t u]) simp_all
    qed
  qed
qed

text \<open>
  A relation between session states that both blocks respect, and that is reflexive and
  transitive, holds between the states before and after a run, and before and after any
  number of runs.
\<close>

lemma main_respects:
  assumes ui: "\<And>w p. R (session w) (session (snd (main_code_ui E w p)))"
    and chat: "\<And>w. R (session w) (session (snd (main_chat_input E w (user_input ev))))"
    and refl: "\<And>s. R s s"
    and trans: "\<And>a b c. R a b \<Longrightarrow> R b c \<Longrightarrow> R a c"
  shows "R (session w) (session (snd (main E ev w)))"
proof (cases "uploaded_file ev")
  case None
  then show ?thesis by (simp add: main_def refl)
next
  case (Some f)
  show ?thesis
  proof (cases "image_to_jpeg E f")
    case (Inl e)
    with Some show ?thesis by (simp add: main_def refl)
  next
    case (Inr bytes)
    let ?p = "temp_name ev @ ''.jpg''"
    let ?w0 = "w\<lparr>files := (files w)(?p \<mapsto> bytes)\<rparr>"
    have s0: "session ?w0 = session w" by simp
    show ?thesis
    proof (cases "button ev")
      case False
      have "main E ev w = main_chat_input E ?w0 (user_input ev)"
        by (rule main_no_button [OF Some Inr False])
      then show ?thesis using chat [of ?w0] by simp
    next
      case True
      obtain r wb where b: "main_code_ui E ?w0 ?p = (r, wb)"
        by (cases "main_code_ui E ?w0 ?p")
      have rb: "R (session w) (session wb)"
        using ui [of ?w0 ?p] b by simp
      show ?thesis
      proof (cases r)
        case None
        with b True have "main E ev w = main_chat_input E wb (user_input ev)"
          by (intro main_after_button [OF Some Inr]) simp
        then show ?thesis using trans [OF rb chat [of wb]] by simp
      next
        case (Some e)
        with b have "main E ev w = (Some e, wb)"
          by (intro main_button_raises [OF \<open>uploaded_file ev = Some f\<close> Inr True]) simp
        then show ?thesis using rb by simp
      qed
    qed
  qed
qed

lemma runs_respects:
  assumes step: "\<And>w ev. ev \<in> set evs \<Longrightarrow> R (session w) (session (snd (main E ev w)))"
    and refl: "\<And>s. R s s"
    and trans: "\<And>a b c. R a b \<Longrightarrow> R b c \<Longrightarrow> R a c"
  shows "R (session w) (session (runs E evs w))"
  using step
proof (induction evs arbitrary: w)
  case Nil
  show ?case by (simp add: refl)
next
  case (Cons ev evs)
  let ?w = "w\<lparr>chat_session := start_chat E\<rparr>"
  have "R (session ?w) (session (snd (main E ev ?w)))"
    by (rule Cons.prems) simp
  moreover have "R (session (snd (main E ev ?w))) (session (runs E evs (snd (main E ev ?w))))"
    by (rule Cons.IH) (rule Cons.prems, simp)
  ultimately have "R (session ?w) (session (runs E evs (snd (main E ev ?w))))"
    by (rule trans)
  then show ?case
    by simp
qed

subsection \<open>The history only grows\<close>

lemma extends_refl: "extends s s"
  by (simp add: extends_def)

lemma extends_trans: "extends a b \<Longrightarrow> extends b c \<Longrightarrow> extends a c"
  by (auto simp: extends_def)

lemma main_code_ui_extends: "extends (session w) (session (snd (main_code_ui E w p)))"
  by (rule main_code_ui_cases [where E = E and w = w and p = p]) (simp_all add: extends_def)

lemma main_chat_input_extends: "extends (session w) (session (snd (main_chat_input E w i)))"
  by (rule main_chat_input_cases [where E = E and w = w and i = i]) (simp_all add: extends_def)

lemma main_extends: "extends (session w) (session (snd (main E ev w)))"
  by (rule main_respects [where R = extends])
    (rule main_code_ui_extends main_chat_input_extends extends_refl | erule (1) extends_trans)+

lemma runs_extends: "extends (session w) (session (runs E evs w))"
  by (rule runs_respects [where R = extends])
    (rule main_extends extends_refl | erule (1) extends_trans)+

lemma extends_take:
  "extends s s' \<Longrightarrow> length (chat_history s) \<le> length (chat_history s')
     \<and> take (length (chat_history s)) (chat_history s') = chat_history s"
  by (auto simp: extends_def)

text \<open>
  C5. One run of \<^verbatim>\<open>main\<close>, whatever the event and however the model calls end,
  leaves a history that is at least as long as before and whose first entries are the old
  history, entry by entry (role and text). The same holds across any number of runs.
\<close>

theorem history_append_only:
  "length (chat_history (session w)) \<le> length (chat_history (session (snd (main E ev w))))
   \<and> take (length (chat_history (session w))) (chat_history (session (snd (main E ev w))))
       = chat_history (session w)
   \<and> length (chat_history (session w)) \<le> length (chat_history (session (runs E evs w)))
   \<and> take (length (chat_history (session w))) (chat_history (session (runs E evs w)))
       = chat_history (session w)"
  using extends_take [OF main_extends [of w E ev]] extends_take [OF runs_extends [of w E evs]]
  by simp


text \<open>After Scenario A: a request whose model call raises, then one that is answered.\<close>

theorem history_append_only_witness:
  "length (chat_history (session (after_A [Inl (Exception ''quota''), Inr ''<html>R</html>'']))) \<le>
     length (chat_history (session (snd (main stub_env (ask ''red'')
       (after_A [Inl (Exception ''quota''), Inr ''<html>R</html>''])))))
   \<and> take (length (chat_history (session (after_A [Inl (Exception ''quota''), Inr ''<html>R</html>'']))))
       (chat_history (session (snd (main stub_env (ask ''red'')
         (after_A [Inl (Exception ''quota''), Inr ''<html>R</html>''])))))
       = chat_history (session (after_A [Inl (Exception ''quota''), Inr ''<html>R</html>'']))
   \<and> length (chat_history (session (after_A [Inl (Exception ''quota''), Inr ''<html>R</html>'']))) \<le>
     length (chat_history (session (runs stub_env [ask ''red'', ask ''red'']
       (after_A [Inl (Exception ''quota''), Inr ''<html>R</html>'']))))
   \<and> take (length (chat_history (session (after_A [Inl (Exception ''quota''), Inr ''<html>R</html>'']))))
       (chat_history (session (runs stub_env [ask ''red'', ask ''red'']
         (after_A [Inl (Exception ''quota''), Inr ''<html>R</html>'']))))
       = chat_history (session (after_A [Inl (Exception ''quota''), Inr ''<html>R</html>'']))"
  by (rule history_append_only)

subsection \<open>\<^verbatim>\<open>refined_html\<close> and the history move together\<close>










subsection \<open>The labels of the entries\<close>

lemma main_code_ui_pipeline_only:
  "pipeline_entries_only (session w) \<Longrightarrow> pipeline_entries_only (session (snd (main_code_ui E w p)))"
  by (rule main_code_ui_cases [where E = E and w = w and p = p])
    (simp_all add: pipeline_entries_only_def)

lemma main_pipeline_only:
  assumes "user_input ev = None"
  shows "pipeline_entries_only (session w) \<longrightarrow> pipeline_entries_only (session (snd (main E ev w)))"
  by (rule main_respects [where R = "\<lambda>s s'. pipeline_entries_only s \<longrightarrow> pipeline_entries_only s'"])
    (simp_all add: main_code_ui_pipeline_only assms main_chat_input_def)

lemma runs_pipeline_only:
  assumes "\<forall>ev \<in> set evs. user_input ev = None"
  shows "pipeline_entries_only (session w) \<longrightarrow> pipeline_entries_only (session (runs E evs w))"
  by (rule runs_respects [where R = "\<lambda>s s'. pipeline_entries_only s \<longrightarrow> pipeline_entries_only s'"])
    (simp_all add: main_pipeline_only assms)

text \<open>
  C10. The entry that a successful button block appends has the role
  \<open>''Initial HTML Code''\<close>; an answered chat turn appends an entry with the role
  \<open>''user''\<close> and then one with the role \<open>''assistant''\<close>. From the start of the
  session, after any number of runs without chat input, every entry of the history has
  the role \<open>''Initial HTML Code''\<close>, so none has the role \<open>''assistant''\<close>.
\<close>

theorem pipeline_entry_is_not_assistant:
  "(fst (main_code_ui E w1 p) = None \<longrightarrow>
      chat_history (session (snd (main_code_ui E w1 p)))
        = chat_history (session w1)
          @ [(''Initial HTML Code'', refined_html (session (snd (main_code_ui E w1 p))))])
   \<and> (t \<noteq> [] \<and> fst (main_chat_input E w2 (Some t)) = None \<longrightarrow>
      chat_history (session (snd (main_chat_input E w2 (Some t))))
        = chat_history (session w2)
          @ [(''user'', t), (''assistant'', refined_html (session (snd (main_chat_input E w2 (Some t)))))])
   \<and> (session w = initial_session \<and> (\<forall>ev \<in> set evs. user_input ev = None) \<longrightarrow>
      (\<forall>e \<in> set (chat_history (session (runs E evs w))). fst e = ''Initial HTML Code'')
      \<and> ''assistant'' \<notin> fst ` set (chat_history (session (runs E evs w))))"
proof (intro conjI impI; (elim conjE)?)
  assume "fst (main_code_ui E w1 p) = None"
  then show "chat_history (session (snd (main_code_ui E w1 p)))
        = chat_history (session w1)
          @ [(''Initial HTML Code'', refined_html (session (snd (main_code_ui E w1 p))))]"
    by (rule_tac main_code_ui_cases [where E = E and w = w1 and p = p]) simp_all
next
  assume "t \<noteq> []" and "fst (main_chat_input E w2 (Some t)) = None"
  then show "chat_history (session (snd (main_chat_input E w2 (Some t))))
        = chat_history (session w2)
          @ [(''user'', t), (''assistant'', refined_html (session (snd (main_chat_input E w2 (Some t)))))]"
    by (rule_tac main_chat_input_cases [where E = E and w = w2 and i = "Some t"]) simp_all
next
  assume start: "session w = initial_session" and quiet: "\<forall>ev \<in> set evs. user_input ev = None"
  have "pipeline_entries_only (session w)"
    by (simp add: start pipeline_entries_only_def initial_session_def)
  with runs_pipeline_only [OF quiet, of w E]
  have only: "pipeline_entries_only (session (runs E evs w))"
    by simp
  then show "\<forall>e \<in> set (chat_history (session (runs E evs w))). fst e = ''Initial HTML Code''"
    by (simp add: pipeline_entries_only_def)
  from only show "''assistant'' \<notin> fst ` set (chat_history (session (runs E evs w)))"
    by (auto simp: pipeline_entries_only_def)
qed

text \<open>
  The button block of Scenario A, a chat turn after it, and two presses of the button
  from the start of a session.
\<close>

theorem pipeline_entry_is_not_assistant_witness:
  "chat_history (session (snd (main_code_ui stub_env
      ((scenario_world scenario_A)\<lparr>files := [''tmpui.jpg'' \<mapsto> scenario_image]\<rparr>) ''tmpui.jpg'')))
     = [(''Initial HTML Code'', ''<html>B</html>'')]
   \<and> chat_history (session (snd (main_chat_input stub_env (after_A [Inr ''<html>R</html>''])
        (Some ''red''))))
     = [(''Initial HTML Code'', ''<html>B</html>''), (''user'', ''red''),
        (''assistant'', ''<html>R</html>'')]
   \<and> ''assistant'' \<notin> fst ` set (chat_history (session (runs stub_env
        [press_code_ui, press_code_ui] (scenario_world (scenario_A @ scenario_A)))))"
proof -
  let ?w1 = "(scenario_world scenario_A)\<lparr>files := [''tmpui.jpg'' \<mapsto> scenario_image]\<rparr>"
  let ?w2 = "after_A [Inr ''<html>R</html>'' :: exn + string]"
  let ?w = "scenario_world (scenario_A @ scenario_A)"
  let ?evs = "[press_code_ui, press_code_ui]"
  note inst = pipeline_entry_is_not_assistant [where E = stub_env and ?w1.0 = ?w1
      and p = "''tmpui.jpg''" and t = "''red''" and ?w2.0 = ?w2 and w = ?w and evs = ?evs]
  have ui: "main_code_ui stub_env ?w1 ''tmpui.jpg'' = (None, after_A [])"
    by (simp add: main_code_ui_def send_message_to_model_def chat_send_def scenario_world_def
        scenario_A_def after_A_def stub_env_def initial_session_def)
  have ui_fst: "fst (main_code_ui stub_env ?w1 ''tmpui.jpg'') = None"
    and ui_html: "refined_html (session (snd (main_code_ui stub_env ?w1 ''tmpui.jpg'')))
      = ''<html>B</html>''"
    and ui_before: "chat_history (session ?w1) = []"
    by (simp_all add: ui) (simp_all add: after_A_def scenario_world_def initial_session_def)
  have chat_fst: "''red'' \<noteq> [] \<and> fst (main_chat_input stub_env ?w2 (Some ''red'')) = None"
    and chat_html: "refined_html (session (snd (main_chat_input stub_env ?w2 (Some ''red''))))
      = ''<html>R</html>''"
    and chat_before: "chat_history (session ?w2) = [(''Initial HTML Code'', ''<html>B</html>'')]"
    by (simp_all add: main_chat_input_def send_message_to_model_def chat_send_def after_A_def
        stub_env_def Let_def)
  have start: "session ?w = initial_session \<and> (\<forall>ev \<in> set ?evs. user_input ev = None)"
    by (simp add: scenario_world_def press_code_ui_def)
  have a: "chat_history (session (snd (main_code_ui stub_env ?w1 ''tmpui.jpg'')))
      = [(''Initial HTML Code'', ''<html>B</html>'')]"
    using inst [THEN conjunct1, THEN mp, OF ui_fst] unfolding ui_html ui_before by simp
  have b: "chat_history (session (snd (main_chat_input stub_env ?w2 (Some ''red''))))
      = [(''Initial HTML Code'', ''<html>B</html>''), (''user'', ''red''),
         (''assistant'', ''<html>R</html>'')]"
    using inst [THEN conjunct2, THEN conjunct1, THEN mp, OF chat_fst]
    unfolding chat_html chat_before by simp
  note c = inst [THEN conjunct2, THEN conjunct2, THEN mp, OF start, THEN conjunct2]
  from a b c show ?thesis by (intro conjI)
qed

subsection \<open>What is sent to the model\<close>

lemma sublist_behind: "sublist xs ys \<Longrightarrow> sublist xs (ps @ ys)"
  using sublist_order.order_trans [OF _ sublist_append_leftI] .

lemma send_with_image:
  assumes "p \<noteq> []" and "files w p = Some bytes"
    and "chat_send_message E (chat_session w)
           (MessageImage m \<lparr>mime_type = ''image/jpeg'', data = bytes\<rparr>) = (r, c')"
  shows "send_message_to_model E w m (Some p) =
    (r, w\<lparr>chat_session := c',
          sent := sent w @ [MessageImage m \<lparr>mime_type = ''image/jpeg'', data = bytes\<rparr>]\<rparr>)"
  using assms by (simp add: send_message_to_model_def chat_send_def)

lemma send_without_image:
  "sent (snd (send_message_to_model E w m None)) = sent w @ [Message m]"
  by (simp add: send_message_to_model_def chat_send_sent)

text \<open>The whole effect of the button block when the four calls return.\<close>

lemma main_code_ui_run:
  assumes p: "p \<noteq> []" and fl: "files w p = Some bytes"
    and img: "img = \<lparr>mime_type = ''image/jpeg'', data = bytes\<rparr>"
    and a1: "chat_send_message E (chat_session w) (MessageImage prompt img) = (Inr d, c1)"
    and a2: "chat_send_message E c1 (MessageImage (refine_prompt d) img) = (Inr rd, c2)"
    and a3: "chat_send_message E c2 (MessageImage (html_prompt rd) img) = (Inr a, c3)"
    and a4: "chat_send_message E c3 (MessageImage (refine_html_prompt a) img) = (Inr b, c4)"
  shows "main_code_ui E w p =
    (None, w\<lparr>chat_session := c4,
             sent := sent w @ [MessageImage prompt img, MessageImage (refine_prompt d) img,
                               MessageImage (html_prompt rd) img,
                               MessageImage (refine_html_prompt a) img],
             session := \<lparr>refined_html = b,
                chat_history = chat_history (session w) @ [(''Initial HTML Code'', b)]\<rparr>\<rparr>)"
proof -
  let ?w1 = "w\<lparr>chat_session := c1, sent := sent w @ [MessageImage prompt img]\<rparr>"
  let ?w2 = "?w1\<lparr>chat_session := c2, sent := sent ?w1 @ [MessageImage (refine_prompt d) img]\<rparr>"
  let ?w3 = "?w2\<lparr>chat_session := c3, sent := sent ?w2 @ [MessageImage (html_prompt rd) img]\<rparr>"
  let ?w4 = "?w3\<lparr>chat_session := c4, sent := sent ?w3 @ [MessageImage (refine_html_prompt a) img]\<rparr>"
  have 1: "send_message_to_model E w prompt (Some p) = (Inr d, ?w1)"
    using send_with_image [OF p fl a1 [unfolded img]] by (simp add: img)
  have 2: "send_message_to_model E ?w1 (refine_prompt d) (Some p) = (Inr rd, ?w2)"
    using send_with_image [OF p, of ?w1 bytes E "refine_prompt d" "Inr rd" c2] fl a2
    by (simp add: img)
  have 3: "send_message_to_model E ?w2 (html_prompt rd) (Some p) = (Inr a, ?w3)"
    using send_with_image [OF p, of ?w2 bytes E "html_prompt rd" "Inr a" c3] fl a3
    by (simp add: img)
  have 4: "send_message_to_model E ?w3 (refine_html_prompt a) (Some p) = (Inr b, ?w4)"
    using send_with_image [OF p, of ?w3 bytes E "refine_html_prompt a" "Inr b" c4] fl a4
    by (simp add: img)
  show ?thesis
    using main_code_ui_success [OF 1 2 3 4] by simp
qed

lemma main_run_button:
  assumes up: "uploaded_file ev = Some f" and jpg: "image_to_jpeg E f = Inr bytes"
    and btn: "button ev" and quiet: "user_input ev = None"
    and img: "img = \<lparr>mime_type = ''image/jpeg'', data = bytes\<rparr>"
    and a1: "chat_send_message E (chat_session w) (MessageImage prompt img) = (Inr d, c1)"
    and a2: "chat_send_message E c1 (MessageImage (refine_prompt d) img) = (Inr rd, c2)"
    and a3: "chat_send_message E c2 (MessageImage (html_prompt rd) img) = (Inr a, c3)"
    and a4: "chat_send_message E c3 (MessageImage (refine_html_prompt a) img) = (Inr b, c4)"
  shows "main E ev w =
    (None, w\<lparr>files := (files w)(temp_name ev @ ''.jpg'' \<mapsto> bytes),
             chat_session := c4,
             sent := sent w @ [MessageImage prompt img, MessageImage (refine_prompt d) img,
                               MessageImage (html_prompt rd) img,
                               MessageImage (refine_html_prompt a) img],
             session := \<lparr>refined_html = b,
                chat_history = chat_history (session w) @ [(''Initial HTML Code'', b)]\<rparr>\<rparr>)"
proof -
  let ?p = "temp_name ev @ ''.jpg''"
  let ?w0 = "w\<lparr>files := (files w)(?p \<mapsto> bytes)\<rparr>"
  have a1': "chat_send_message E (chat_session ?w0) (MessageImage prompt img) = (Inr d, c1)"
    using a1 by simp
  have "main E ev w = main_code_ui E ?w0 ?p"
    by (rule main_button_only [OF up jpg btn quiet])
  also have "\<dots> = (None, ?w0\<lparr>chat_session := c4,
             sent := sent ?w0 @ [MessageImage prompt img, MessageImage (refine_prompt d) img,
                               MessageImage (html_prompt rd) img,
                               MessageImage (refine_html_prompt a) img],
             session := \<lparr>refined_html = b,
                chat_history = chat_history (session ?w0) @ [(''Initial HTML Code'', b)]\<rparr>\<rparr>)"
    by (rule main_code_ui_run [OF _ _ img a1' a2 a3 a4]) simp_all
  finally show ?thesis by simp
qed

lemma main_chat_input_sent:
  "t \<noteq> [] \<Longrightarrow> sent (snd (main_chat_input E w (Some t)))
     = sent w @ [Message (chat_refine_html_prompt (refined_html (session w)) t)]"
proof -
  assume ne: "t \<noteq> []"
  let ?w1 = "w\<lparr>session := (session w)\<lparr>chat_history := chat_history (session w) @ [(''user'', t)]\<rparr>\<rparr>"
  let ?pr = "chat_refine_html_prompt (refined_html (session w)) t"
  obtain r w2 where s: "send_message_to_model E ?w1 ?pr None = (r, w2)"
    by (cases "send_message_to_model E ?w1 ?pr None")
  have "sent (snd (send_message_to_model E ?w1 ?pr None)) = sent w @ [Message ?pr]"
    by (simp add: send_without_image)
  with s have "sent w2 = sent w @ [Message ?pr]"
    by simp
  with s ne show ?thesis
    by (cases r) (simp_all add: main_chat_input_def Let_def)
qed

text \<open>
  C7. In a run with the button pressed whose four calls return \<open>d\<close>, \<open>rd\<close>,
  \<open>a\<close> and \<open>b\<close>, the log of calls grows by exactly four arguments, in this order:
  the first prompt, the prompt built from \<open>d\<close>, the prompt built from \<open>rd\<close> and the
  prompt built from \<open>a\<close>; each of these prompts contains the text it was built from, and
  each is sent together with the same image, the JPEG bytes of the upload. In a run
  without the button and with a chat input \<open>t\<close>, the log grows by one argument, a bare
  message with no image, which contains both the current \<^verbatim>\<open>refined_html\<close> and \<open>t\<close>.
\<close>

theorem calls_of_a_run:
  assumes up: "uploaded_file ev = Some f" and jpg: "image_to_jpeg E f = Inr bytes"
    and btn: "button ev" and quiet: "user_input ev = None"
    and img: "img = \<lparr>mime_type = ''image/jpeg'', data = bytes\<rparr>"
    and a1: "chat_send_message E (chat_session w) (MessageImage prompt img) = (Inr d, c1)"
    and a2: "chat_send_message E c1 (MessageImage (refine_prompt d) img) = (Inr rd, c2)"
    and a3: "chat_send_message E c2 (MessageImage (html_prompt rd) img) = (Inr a, c3)"
    and a4: "chat_send_message E c3 (MessageImage (refine_html_prompt a) img) = (Inr b, c4)"
    and up': "uploaded_file ev' = Some f'" and jpg': "image_to_jpeg E f' = Inr bytes'"
    and nbtn: "\<not> button ev'" and inp: "user_input ev' = Some t" and ne: "t \<noteq> []"
  shows "sent (snd (main E ev w)) =
      sent w @ [MessageImage prompt img, MessageImage (refine_prompt d) img,
                MessageImage (html_prompt rd) img, MessageImage (refine_html_prompt a) img]
    \<and> sublist d (refine_prompt d) \<and> sublist rd (html_prompt rd)
    \<and> sublist a (refine_html_prompt a)
    \<and> sent (snd (main E ev' w')) =
        sent w' @ [Message (chat_refine_html_prompt (refined_html (session w')) t)]
    \<and> sublist (refined_html (session w')) (chat_refine_html_prompt (refined_html (session w')) t)
    \<and> sublist t (chat_refine_html_prompt (refined_html (session w')) t)"
proof (intro conjI)
  show "sent (snd (main E ev w)) =
      sent w @ [MessageImage prompt img, MessageImage (refine_prompt d) img,
                MessageImage (html_prompt rd) img, MessageImage (refine_html_prompt a) img]"
    by (simp add: main_run_button [OF up jpg btn quiet img a1 a2 a3 a4])
  show "sublist d (refine_prompt d)"
    unfolding refine_prompt_def by (rule sublist_append_leftI)
  show "sublist rd (html_prompt rd)"
    unfolding html_prompt_def by (intro sublist_behind sublist_append_leftI)
  show "sublist a (refine_html_prompt a)"
    unfolding refine_html_prompt_def by (intro sublist_behind sublist_append_leftI)
  let ?w0 = "w'\<lparr>files := (files w')(temp_name ev' @ ''.jpg'' \<mapsto> bytes')\<rparr>"
  have "main E ev' w' = main_chat_input E ?w0 (Some t)"
    using main_no_button [OF up' jpg' nbtn] by (simp add: inp)
  then show "sent (snd (main E ev' w')) =
        sent w' @ [Message (chat_refine_html_prompt (refined_html (session w')) t)]"
    using main_chat_input_sent [OF ne, of E ?w0] by simp
  show "sublist (refined_html (session w')) (chat_refine_html_prompt (refined_html (session w')) t)"
    unfolding chat_refine_html_prompt_def by (intro sublist_append_rightI sublist_behind)
  show "sublist t (chat_refine_html_prompt (refined_html (session w')) t)"
    unfolding chat_refine_html_prompt_def by (intro sublist_append_rightI sublist_behind)
qed

text \<open>Scenario A, and Scenario B after it.\<close>

theorem calls_of_a_run_witness:
  "sent (snd (main stub_env press_code_ui (scenario_world scenario_A))) =
      [MessageImage prompt \<lparr>mime_type = ''image/jpeg'', data = scenario_image\<rparr>,
       MessageImage (refine_prompt ''D'') \<lparr>mime_type = ''image/jpeg'', data = scenario_image\<rparr>,
       MessageImage (html_prompt ''RD'') \<lparr>mime_type = ''image/jpeg'', data = scenario_image\<rparr>,
       MessageImage (refine_html_prompt ''<html>A</html>'')
         \<lparr>mime_type = ''image/jpeg'', data = scenario_image\<rparr>]
   \<and> sublist ''D'' (refine_prompt ''D'') \<and> sublist ''RD'' (html_prompt ''RD'')
   \<and> sublist ''<html>A</html>'' (refine_html_prompt ''<html>A</html>'')
   \<and> sent (snd (main stub_env (ask ''make the button red'') (after_A [Inr ''<html>B-red</html>''])))
       = sent (after_A [Inr ''<html>B-red</html>'' :: exn + string])
         @ [Message (chat_refine_html_prompt ''<html>B</html>'' ''make the button red'')]
   \<and> sublist ''<html>B</html>''
        (chat_refine_html_prompt ''<html>B</html>'' ''make the button red'')
   \<and> sublist ''make the button red''
        (chat_refine_html_prompt ''<html>B</html>'' ''make the button red'')"
proof -
  let ?img = "\<lparr>mime_type = ''image/jpeg'', data = scenario_image\<rparr>"
  let ?t = "''make the button red''"
  have press: "uploaded_file press_code_ui = Some scenario_image"
    "image_to_jpeg stub_env scenario_image = Inr scenario_image"
    "button press_code_ui" "user_input press_code_ui = None"
    by (simp_all add: press_code_ui_def stub_env_def)
  have answers:
    "chat_send_message stub_env (chat_session (scenario_world scenario_A)) (MessageImage prompt ?img)
      = (Inr ''D'', [Inr ''RD'', Inr ''<html>A</html>'', Inr ''<html>B</html>''])"
    "chat_send_message stub_env [Inr ''RD'', Inr ''<html>A</html>'', Inr ''<html>B</html>'']
      (MessageImage (refine_prompt ''D'') ?img)
      = (Inr ''RD'', [Inr ''<html>A</html>'', Inr ''<html>B</html>''])"
    "chat_send_message stub_env [Inr ''<html>A</html>'', Inr ''<html>B</html>'']
      (MessageImage (html_prompt ''RD'') ?img)
      = (Inr ''<html>A</html>'', [Inr ''<html>B</html>''])"
    "chat_send_message stub_env [Inr ''<html>B</html>'']
      (MessageImage (refine_html_prompt ''<html>A</html>'') ?img)
      = (Inr ''<html>B</html>'', [])"
    by (simp_all add: stub_env_def scenario_world_def scenario_A_def)
  have asks: "uploaded_file (ask ?t) = Some scenario_image"
    "image_to_jpeg stub_env scenario_image = Inr scenario_image"
    "\<not> button (ask ?t)" "user_input (ask ?t) = Some ?t" "?t \<noteq> []"
    by (simp_all add: ask_def stub_env_def)
  have before: "sent (scenario_world scenario_A) = []"
    "refined_html (session (after_A [Inr ''<html>B-red</html>'' :: exn + string])) = ''<html>B</html>''"
    by (simp_all add: scenario_world_def after_A_def)
  show ?thesis
    using calls_of_a_run [OF press refl answers asks, of "after_A [Inr ''<html>B-red</html>'']"]
    unfolding before by simp
qed

subsection \<open>Sending the same request twice\<close>

lemma answered_turn:
  assumes det: "chat_send_message E = (\<lambda>c arg. (Inr (g arg), c))"
    and up: "uploaded_file ev = Some f" and jpg: "image_to_jpeg E f = Inr bytes"
    and nbtn: "\<not> button ev" and inp: "user_input ev = Some t" and ne: "t \<noteq> []"
  shows "session (snd (main E ev w)) =
    \<lparr>refined_html = g (Message (chat_refine_html_prompt (refined_html (session w)) t)),
     chat_history = chat_history (session w)
       @ [(''user'', t),
          (''assistant'', g (Message (chat_refine_html_prompt (refined_html (session w)) t)))]\<rparr>"
proof -
  let ?w0 = "w\<lparr>files := (files w)(temp_name ev @ ''.jpg'' \<mapsto> bytes)\<rparr>"
  let ?w1 = "?w0\<lparr>session := (session ?w0)\<lparr>chat_history :=
                chat_history (session ?w0) @ [(''user'', t)]\<rparr>\<rparr>"
  let ?pr = "chat_refine_html_prompt (refined_html (session ?w0)) t"
  have m: "main E ev w = main_chat_input E ?w0 (Some t)"
    using main_no_button [OF up jpg nbtn] by (simp add: inp)
  have "send_message_to_model E ?w1 ?pr None
      = (Inr (g (Message ?pr)), ?w1\<lparr>chat_session := chat_session ?w1,
           sent := sent ?w1 @ [Message ?pr]\<rparr>)"
    by (simp add: send_message_to_model_def chat_send_def det)
  from main_chat_input_success [OF ne this] show ?thesis
    by (simp add: m)
qed

text \<open>
  C8 (as the code has it). Let the model be a function \<open>g\<close> of the argument of the
  call. Submitting \<open>t\<close> appends exactly the pair \<open>(user, t)\<close>, \<open>(assistant, h1)\<close>
  and leaves \<^verbatim>\<open>refined_html\<close> at \<open>h1\<close>, the answer to the prompt built around the
  HTML before. Submitting \<open>t\<close> again appends exactly one more such pair, with \<open>h2\<close>,
  the answer to the prompt built around \<open>h1\<close>. So the second submission reproduces the
  \<^verbatim>\<open>refined_html\<close> of the first exactly when \<open>g\<close> gives both prompts the same
  answer.
\<close>

theorem resend_follow_up:
  assumes det: "chat_send_message E = (\<lambda>c arg. (Inr (g arg), c))"
    and up: "uploaded_file ev = Some f" and jpg: "image_to_jpeg E f = Inr bytes"
    and nbtn: "\<not> button ev" and inp: "user_input ev = Some t" and ne: "t \<noteq> []"
    and h1: "h1 = g (Message (chat_refine_html_prompt (refined_html (session w)) t))"
    and h2: "h2 = g (Message (chat_refine_html_prompt h1 t))"
  shows "session (snd (main E ev w)) =
      \<lparr>refined_html = h1,
       chat_history = chat_history (session w) @ [(''user'', t), (''assistant'', h1)]\<rparr>
    \<and> session (runs E [ev, ev] w) =
      \<lparr>refined_html = h2,
       chat_history = chat_history (session w)
         @ [(''user'', t), (''assistant'', h1), (''user'', t), (''assistant'', h2)]\<rparr>
    \<and> ((refined_html (session (runs E [ev, ev] w)) = refined_html (session (snd (main E ev w))))
        = (h2 = h1))"
proof -
  note turn = answered_turn [OF det up jpg nbtn inp ne]
  have first: "session (snd (main E ev w)) =
      \<lparr>refined_html = h1,
       chat_history = chat_history (session w) @ [(''user'', t), (''assistant'', h1)]\<rparr>"
    using turn [of w] by (simp add: h1)
  let ?w = "w\<lparr>chat_session := start_chat E\<rparr>"
  have again: "session (snd (main E ev ?w)) =
      \<lparr>refined_html = h1,
       chat_history = chat_history (session w) @ [(''user'', t), (''assistant'', h1)]\<rparr>"
    using turn [of ?w] by (simp add: h1)
  have second: "session (runs E [ev, ev] w) =
      \<lparr>refined_html = h2,
       chat_history = chat_history (session w)
         @ [(''user'', t), (''assistant'', h1), (''user'', t), (''assistant'', h2)]\<rparr>"
    using turn [of "(snd (main E ev ?w))\<lparr>chat_session := start_chat E\<rparr>"]
    by (simp add: again h2)
  show ?thesis
    unfolding first second by simp
qed

text \<open>
  A stub that answers \<open><html>R</html>\<close> whatever it is asked: the second submission
  reproduces the HTML of the first.
\<close>

theorem resend_follow_up_witness:
  "session (snd (main (answer_env (\<lambda>arg. ''<html>R</html>'')) (ask ''red'') (after_A ()))) =
      \<lparr>refined_html = ''<html>R</html>'',
       chat_history = [(''Initial HTML Code'', ''<html>B</html>''),
         (''user'', ''red''), (''assistant'', ''<html>R</html>'')]\<rparr>
   \<and> session (runs (answer_env (\<lambda>arg. ''<html>R</html>'')) [ask ''red'', ask ''red''] (after_A ())) =
      \<lparr>refined_html = ''<html>R</html>'',
       chat_history = [(''Initial HTML Code'', ''<html>B</html>''),
         (''user'', ''red''), (''assistant'', ''<html>R</html>''),
         (''user'', ''red''), (''assistant'', ''<html>R</html>'')]\<rparr>
   \<and> refined_html (session (runs (answer_env (\<lambda>arg. ''<html>R</html>''))
          [ask ''red'', ask ''red''] (after_A ())))
     = refined_html (session (snd (main (answer_env (\<lambda>arg. ''<html>R</html>'')) (ask ''red'')
          (after_A ()))))"
proof -
  let ?E = "answer_env (\<lambda>arg. ''<html>R</html>'')"
  have hyps: "chat_send_message ?E = (\<lambda>c arg. (Inr ((\<lambda>arg. ''<html>R</html>'') arg), c))"
    "uploaded_file (ask ''red'') = Some scenario_image"
    "image_to_jpeg ?E scenario_image = Inr scenario_image"
    "\<not> button (ask ''red'')" "user_input (ask ''red'') = Some ''red''" "''red'' \<noteq> []"
    by (simp_all add: answer_env_def ask_def)
  have before: "chat_history (session (after_A ())) = [(''Initial HTML Code'', ''<html>B</html>'')]"
    by (simp add: after_A_def)
  show ?thesis
    using resend_follow_up [OF hyps refl refl, of "after_A ()"]
    unfolding before by simp
qed

text \<open>
  C8 as the specification states it fails for a model that is a function of its input:
  with the stub that returns the prompt it is given, the second submission of the same
  request leaves another \<^verbatim>\<open>refined_html\<close> than the first.
\<close>

theorem resend_follow_up_counterexample:
  "refined_html (session (runs (answer_env echo) [ask ''red'', ask ''red''] (after_A ())))
     \<noteq> refined_html (session (snd (main (answer_env echo) (ask ''red'') (after_A ()))))"
  by (simp add: main_def main_chat_input_def send_message_to_model_def chat_send_def Let_def
      answer_env_def ask_def after_A_def chat_refine_html_prompt_def newline_def)

subsection \<open>A stage that returns the empty text\<close>

text \<open>
  C9 (as the code has it). The button block never tests a returned text for emptiness.
  When the four calls return, some of them the empty text, the run is no failure: it
  reports no exception, all four calls are made, \<^verbatim>\<open>refined_html\<close> becomes the text
  of the fourth call (the empty string if that is what it returned) and the entry with
  that text is appended to the history.
\<close>

theorem empty_answer_is_no_failure:
  assumes up: "uploaded_file ev = Some f" and jpg: "image_to_jpeg E f = Inr bytes"
    and btn: "button ev" and quiet: "user_input ev = None"
    and img: "img = \<lparr>mime_type = ''image/jpeg'', data = bytes\<rparr>"
    and a1: "chat_send_message E (chat_session w) (MessageImage prompt img) = (Inr d, c1)"
    and a2: "chat_send_message E c1 (MessageImage (refine_prompt d) img) = (Inr rd, c2)"
    and a3: "chat_send_message E c2 (MessageImage (html_prompt rd) img) = (Inr a, c3)"
    and a4: "chat_send_message E c3 (MessageImage (refine_html_prompt a) img) = (Inr b, c4)"
    and empty: "d = [] \<or> rd = [] \<or> a = [] \<or> b = []"
  shows "fst (main E ev w) = None
    \<and> length (sent (snd (main E ev w))) = length (sent w) + 4
    \<and> refined_html (session (snd (main E ev w))) = b
    \<and> chat_history (session (snd (main E ev w)))
        = chat_history (session w) @ [(''Initial HTML Code'', b)]"
  by (simp add: main_run_button [OF up jpg btn quiet img a1 a2 a3 a4])

text \<open>Every stage returns the empty text, after Scenario A.\<close>

theorem empty_answer_is_no_failure_witness:
  "fst (main stub_env press_code_ui (after_A [Inr [], Inr [], Inr [], Inr []])) = None
   \<and> length (sent (snd (main stub_env press_code_ui (after_A [Inr [], Inr [], Inr [], Inr []]))))
       = 4 + 4
   \<and> refined_html (session (snd (main stub_env press_code_ui
         (after_A [Inr [], Inr [], Inr [], Inr []])))) = []
   \<and> chat_history (session (snd (main stub_env press_code_ui
         (after_A [Inr [], Inr [], Inr [], Inr []]))))
       = [(''Initial HTML Code'', ''<html>B</html>''), (''Initial HTML Code'', [])]"
proof -
  let ?img = "\<lparr>mime_type = ''image/jpeg'', data = scenario_image\<rparr>"
  let ?w = "after_A [Inr [], Inr [], Inr [], Inr [] :: exn + string]"
  have press: "uploaded_file press_code_ui = Some scenario_image"
    "image_to_jpeg stub_env scenario_image = Inr scenario_image"
    "button press_code_ui" "user_input press_code_ui = None"
    by (simp_all add: press_code_ui_def stub_env_def)
  have answers:
    "chat_send_message stub_env (chat_session ?w) (MessageImage prompt ?img)
      = (Inr [], [Inr [], Inr [], Inr []])"
    "chat_send_message stub_env [Inr [], Inr [], Inr []] (MessageImage (refine_prompt []) ?img)
      = (Inr [], [Inr [], Inr []])"
    "chat_send_message stub_env [Inr [], Inr []] (MessageImage (html_prompt []) ?img)
      = (Inr [], [Inr []])"
    "chat_send_message stub_env [Inr []] (MessageImage (refine_html_prompt []) ?img)
      = (Inr [], [])"
    by (simp_all add: stub_env_def after_A_def)
  have before: "length (sent ?w) = 4"
    "chat_history (session ?w) = [(''Initial HTML Code'', ''<html>B</html>'')]"
    by (simp_all add: after_A_def)
  show ?thesis
    using empty_answer_is_no_failure [OF press refl answers]
    unfolding before by simp
qed

text \<open>
  C9 as the specification states it fails. When the first stage returns the empty text,
  the run goes on and commits the HTML of the fourth stage; when the fourth stage returns
  the empty text, the run overwrites \<^verbatim>\<open>refined_html\<close> with the empty string and
  appends an entry for it.
\<close>

theorem empty_answer_is_no_failure_counterexample:
  "fst (main stub_env press_code_ui
      (scenario_world [Inr [], Inr ''RD'', Inr ''<html>A</html>'', Inr ''<html>B</html>''])) = None
   \<and> session (snd (main stub_env press_code_ui
      (scenario_world [Inr [], Inr ''RD'', Inr ''<html>A</html>'', Inr ''<html>B</html>''])))
     = \<lparr>refined_html = ''<html>B</html>'',
        chat_history = [(''Initial HTML Code'', ''<html>B</html>'')]\<rparr>
   \<and> fst (main stub_env press_code_ui
      (after_A [Inr ''D'', Inr ''RD'', Inr ''<html>A</html>'', Inr []])) = None
   \<and> session (snd (main stub_env press_code_ui
      (after_A [Inr ''D'', Inr ''RD'', Inr ''<html>A</html>'', Inr []])))
     = \<lparr>refined_html = [],
        chat_history = [(''Initial HTML Code'', ''<html>B</html>''), (''Initial HTML Code'', [])]\<rparr>"
  by (simp add: main_def main_code_ui_def main_chat_input_def send_message_to_model_def
      chat_send_def Let_def press_code_ui_def stub_env_def scenario_world_def after_A_def
      initial_session_def)

end
